theory Spec2Isabelle
  imports Complex_Main
begin

section \<open>Data model (types.ts)\<close>

text \<open>
  The enums and string-literal unions of \<^verbatim>\<open>types.ts\<close> are datatypes with the source's
  constructor names.
\<close>

datatype WorkflowStep = IDLE | UPLOADING | GEMINI_ANALYSIS | A2A_HANDSHAKE | COMPLETED

datatype Intensity = Low | Moderate | Severe | Catastrophic

datatype Agent = GoogleAgent | SalesforceAgent

datatype Protocol = A2A | AP2

datatype LogStatus = SENT | RECEIVED | PROCESSED

datatype ClaimStatus = APPROVED | MANUAL_REVIEW

text \<open>
  A TypeScript \<^verbatim>\<open>number\<close> is an IEEE double. Only its order is used by the program, so
  a finite value is modelled by the real it denotes (every finite double is one), and the
  three values that are no real number are kept apart.
\<close>

datatype number = Finite real | PosInfinity | NegInfinity | NaN

text \<open>The operator \<^verbatim>\<open><\<close> on numbers: false as soon as one side is NaN.\<close>

fun js_less :: "number \<Rightarrow> number \<Rightarrow> bool" where
  "js_less NaN _ = False"
| "js_less _ NaN = False"
| "js_less (Finite a) (Finite b) = (a < b)"
| "js_less (Finite _) PosInfinity = True"
| "js_less (Finite _) NegInfinity = False"
| "js_less PosInfinity _ = False"
| "js_less NegInfinity NegInfinity = False"
| "js_less NegInfinity _ = True"

text \<open>The operator \<^verbatim>\<open>>=\<close> on numbers: again false as soon as one side is NaN.\<close>

fun js_greater_eq :: "number \<Rightarrow> number \<Rightarrow> bool" where
  "js_greater_eq NaN _ = False"
| "js_greater_eq _ NaN = False"
| "js_greater_eq a b = (\<not> js_less a b)"

record DamageReport =
  intensity :: Intensity
  estimatedCost :: number
  identifiedItems :: "string list"
  summary :: string
  structuralIntegrityRisk :: bool

text \<open>
  The field \<^verbatim>\<open>payload\<close> has type \<^verbatim>\<open>any\<close>. The values the program stores there are
  object literals over strings, numbers and the report object itself.
\<close>

datatype any = Str string | Num number | Ref DamageReport | Obj "(string \<times> any) list"

text \<open>
  \<^verbatim>\<open>Omit<HandshakeLog, 'timestamp'>\<close>, the parameter type of \<^verbatim>\<open>addLog\<close>, is the record
  \<open>Log\<close>; \<^verbatim>\<open>HandshakeLog\<close> extends it by the timestamp. The fields \<^verbatim>\<open>from\<close> and
  \<^verbatim>\<open>to\<close> are renamed, \<open>from\<close> being a keyword of Isabelle.
\<close>

record Log =
  from_agent :: Agent
  to_agent :: Agent
  protocol :: Protocol
  payload :: any
  status :: LogStatus

record HandshakeLog = Log +
  timestamp :: string

record ClaimResult =
  status :: ClaimStatus
  paymentInitiated :: bool
  referenceId :: string
  report :: DamageReport

section \<open>The component state (App.tsx)\<close>

text \<open>The five \<^verbatim>\<open>useState\<close> cells of the component \<^verbatim>\<open>App\<close>.\<close>

record AppState =
  step :: WorkflowStep
  report :: "DamageReport option"
  logs :: "HandshakeLog list"
  result :: "ClaimResult option"
  previewUrl :: "string option"

definition initialState :: AppState where
  "initialState =
     \<lparr>step = IDLE, report = None, logs = [], result = None, previewUrl = None\<rparr>"

definition APPROVAL_THRESHOLD :: number where
  "APPROVAL_THRESHOLD = Finite 5000"

text \<open>
  What the host hands to one run of the upload handler: \<^verbatim>\<open>reader.result\<close> when
  \<^verbatim>\<open>onloadend\<close> is called (\<^verbatim>\<open>null\<close> when the file could not be read), the reading of
  \<^verbatim>\<open>new Date().toLocaleTimeString()\<close> at the run's n-th call of \<^verbatim>\<open>addLog\<close>, and
  the string \<^verbatim>\<open>Math.random().toString(36)\<close> of the run's one random draw (\<open>''0''\<close> for
  the draw 0, otherwise \<open>''0.''\<close> followed by digits of base 36).
\<close>

record Host =
  reader_result :: "string option"
  toLocaleTimeString :: "nat \<Rightarrow> string"
  random_toString36 :: string

text \<open>
  \<^verbatim>\<open>setLogs(prev => [...prev, { ...log, timestamp: ... }])\<close>: the entry goes to the end
  of the transcript as it is when the update is applied.
\<close>

definition addLog :: "string \<Rightarrow> Log \<Rightarrow> AppState \<Rightarrow> AppState" where
  "addLog now entry s =
     s\<lparr>logs := logs s @ [Log.extend entry (HandshakeLog.fields now)]\<rparr>"

text \<open>
  \<^verbatim>\<open>toUpperCase\<close> on the characters that \<^verbatim>\<open>toString(36)\<close> produces (digits, lower-case
  ASCII letters and the point); other characters are left as they are.
\<close>

definition toUpperCase_char :: "char \<Rightarrow> char" where
  "toUpperCase_char c =
     (case map_of (zip ''abcdefghijklmnopqrstuvwxyz'' ''ABCDEFGHIJKLMNOPQRSTUVWXYZ'') c of
        Some u \<Rightarrow> u
      | None \<Rightarrow> c)"

definition toUpperCase :: "string \<Rightarrow> string" where
  "toUpperCase = map toUpperCase_char"

text \<open>\<^verbatim>\<open>s.substr(start, length)\<close> for non-negative arguments.\<close>

definition substr :: "string \<Rightarrow> nat \<Rightarrow> nat \<Rightarrow> string" where
  "substr s start len = take len (drop start s)"

definition newReferenceId :: "Host \<Rightarrow> string" where
  "newReferenceId host = ''CLM-'' @ toUpperCase (substr (random_toString36 host) 2 9)"

section \<open>performA2AHandshake\<close>

text \<open>
  The function awaits a timer three times. Each stretch of code between two awaits runs
  without interruption and is one definition; \<open>isApproved\<close> is the local constant of
  the source, computed in the second stretch and used by the last two.
\<close>

definition isApproved :: "DamageReport \<Rightarrow> bool" where
  "isApproved damageReport = js_less (estimatedCost damageReport) APPROVAL_THRESHOLD"

text \<open>Step 1: Google Agent initiates A2A.\<close>

definition handshake_step1 :: "Host \<Rightarrow> DamageReport \<Rightarrow> AppState \<Rightarrow> AppState" where
  "handshake_step1 host damageReport =
     addLog (toLocaleTimeString host 1)
       \<lparr>from_agent = GoogleAgent,
        to_agent = SalesforceAgent,
        protocol = A2A,
        payload = Obj
          [(''method'', Str ''PROPOSE_CLAIM''),
           (''params'', Obj
              [(''assessment'', Ref damageReport),
               (''agent_version'', Str ''Gemini-3-Pro-Handshake-V1'')])],
        status = SENT\<rparr>"

text \<open>Step 2: Salesforce Agent checks thresholds.\<close>

definition handshake_step2 :: "Host \<Rightarrow> DamageReport \<Rightarrow> AppState \<Rightarrow> AppState" where
  "handshake_step2 host damageReport =
     addLog (toLocaleTimeString host 2)
       \<lparr>from_agent = SalesforceAgent,
        to_agent = GoogleAgent,
        protocol = A2A,
        payload = Obj
          [(''method'', Str ''EVALUATE_POLICY''),
           (''result'',
              Str (if isApproved damageReport then ''AUTO_APPROVE''
                   else ''REQUIRE_MANUAL_REVIEW'')),
           (''threshold_applied'', Str ''$5000'')],
        status = PROCESSED\<rparr>"

text \<open>Step 3: Initiate AP2 if approved.\<close>

definition handshake_step3 :: "Host \<Rightarrow> DamageReport \<Rightarrow> AppState \<Rightarrow> AppState" where
  "handshake_step3 host damageReport s =
     (if isApproved damageReport then
        addLog (toLocaleTimeString host 3)
          \<lparr>from_agent = SalesforceAgent,
           to_agent = SalesforceAgent,
           protocol = AP2,
           payload = Obj
             [(''method'', Str ''INITIATE_PAYMENT''),
              (''amount'', Num (estimatedCost damageReport)),
              (''currency'', Str ''USD''),
              (''settlement_network'', Str ''FED_INSTANT_SETTLEMENT'')],
           status = SENT\<rparr> s
      else s)"

text \<open>The end of the function: \<^verbatim>\<open>setResult\<close> and \<^verbatim>\<open>setStep(COMPLETED)\<close>.\<close>

definition handshake_finish :: "Host \<Rightarrow> DamageReport \<Rightarrow> AppState \<Rightarrow> AppState" where
  "handshake_finish host damageReport s =
     s\<lparr>result := Some
          \<lparr>status = (if isApproved damageReport then APPROVED else MANUAL_REVIEW),
           paymentInitiated = isApproved damageReport,
           referenceId = newReferenceId host,
           report = damageReport\<rparr>,
       step := COMPLETED\<rparr>"

text \<open>One run of the function, from its call to its return.\<close>

definition performA2AHandshake :: "Host \<Rightarrow> DamageReport \<Rightarrow> AppState \<Rightarrow> AppState" where
  "performA2AHandshake host damageReport s =
     handshake_finish host damageReport
       (handshake_step3 host damageReport
          (handshake_step2 host damageReport
             (handshake_step1 host damageReport s)))"

section \<open>handleFileUpload\<close>

text \<open>The selected file; the handler reads its media type only.\<close>

record File =
  type :: string

text \<open>What the handler does besides updating the state.\<close>

datatype Effect =
    Call_analyzeDamage "string option" string
  | Console_error string string
  | Alert string
  | Uncaught_TypeError

text \<open>\<^verbatim>\<open>s.split(sep)\<close> for a separator of one character.\<close>

fun split :: "char \<Rightarrow> string \<Rightarrow> string list" where
  "split sep [] = [[]]"
| "split sep (c # cs) =
     (if c = sep then [] # split sep cs
      else (case split sep cs of x # xs \<Rightarrow> (c # x) # xs | [] \<Rightarrow> [[c]]))"

text \<open>\<^verbatim>\<open>xs[i]\<close>, which is \<^verbatim>\<open>undefined\<close> beyond the end of the array.\<close>

definition at_index :: "'a list \<Rightarrow> nat \<Rightarrow> 'a option" where
  "at_index xs i = (if i < length xs then Some (xs ! i) else None)"

text \<open>
  The stretches of the handler between its suspension points. The first runs when the
  input changes, the second when the reader has the data URL, the third when
  \<^verbatim>\<open>analyzeDamage\<close> has returned a report, the last in the \<^verbatim>\<open>catch\<close> block.
\<close>

definition upload_begin :: "AppState \<Rightarrow> AppState" where
  "upload_begin s = s\<lparr>step := UPLOADING\<rparr>"

definition upload_loaded :: "string \<Rightarrow> AppState \<Rightarrow> AppState" where
  "upload_loaded url s = s\<lparr>previewUrl := Some url, step := GEMINI_ANALYSIS\<rparr>"

definition upload_analysed :: "DamageReport \<Rightarrow> AppState \<Rightarrow> AppState" where
  "upload_analysed damageReport s = s\<lparr>report := Some damageReport, step := A2A_HANDSHAKE\<rparr>"

definition upload_failed :: "AppState \<Rightarrow> AppState" where
  "upload_failed s = s\<lparr>step := IDLE\<rparr>"

text \<open>
  The callback \<^verbatim>\<open>reader.onloadend\<close>. The module \<^verbatim>\<open>services/geminiService\<close> is not
  part of the sources at hand, so \<open>analyzeDamage\<close> is a parameter: it returns a report
  (\<open>Inr\<close>) or throws (\<open>Inl\<close>, with the error). A \<^verbatim>\<open>null\<close> reader result makes
  \<^verbatim>\<open>.split\<close> throw before the \<^verbatim>\<open>try\<close> block is entered.
\<close>

definition onloadend ::
  "(string option \<Rightarrow> string \<Rightarrow> string + DamageReport) \<Rightarrow> Host \<Rightarrow> File \<Rightarrow> AppState \<Rightarrow>
     AppState \<times> Effect list" where
  "onloadend analyzeDamage host file s =
     (case reader_result host of
        None \<Rightarrow> (s, [Uncaught_TypeError])
      | Some url \<Rightarrow>
          (let base64 = at_index (split CHR '','' url) 1;
               s' = upload_loaded url s
           in case analyzeDamage base64 (type file) of
                Inr damageReport \<Rightarrow>
                  (performA2AHandshake host damageReport (upload_analysed damageReport s'),
                   [Call_analyzeDamage base64 (type file)])
              | Inl error \<Rightarrow>
                  (upload_failed s',
                   [Call_analyzeDamage base64 (type file),
                    Console_error ''Analysis failed'' error,
                    Alert (''Verification failed. Please ensure the image/video '' @
                           ''clearly shows the damage.'')])))"

text \<open>
  One run of the handler, from the change event to the end of the callback; the
  argument \<open>file\<close> is \<^verbatim>\<open>event.target.files?.[0]\<close>.
\<close>

definition handleFileUpload ::
  "(string option \<Rightarrow> string \<Rightarrow> string + DamageReport) \<Rightarrow> Host \<Rightarrow> File option \<Rightarrow> AppState \<Rightarrow>
     AppState \<times> Effect list" where
  "handleFileUpload analyzeDamage host file s =
     (case file of
        None \<Rightarrow> (s, [])
      | Some f \<Rightarrow> onloadend analyzeDamage host f (upload_begin s))"

section \<open>resetWorkflow\<close>

definition resetWorkflow :: "AppState \<Rightarrow> AppState" where
  "resetWorkflow s =
     s\<lparr>step := IDLE, report := None, logs := [], result := None, previewUrl := None\<rparr>"

section \<open>The rendered controls\<close>

text \<open>
  The file input, whose \<^verbatim>\<open>onChange\<close> is \<open>handleFileUpload\<close>, is rendered under
  \<^verbatim>\<open>step === WorkflowStep.IDLE &&\<close>; the button that calls \<open>resetWorkflow\<close> is always
  rendered. A control that is not rendered delivers no event.
\<close>

definition upload_area_rendered :: "AppState \<Rightarrow> bool" where
  "upload_area_rendered s = (step s = IDLE)"

datatype UserAction = Select_file "File option" | Click_reset

fun user_action ::
  "(string option \<Rightarrow> string \<Rightarrow> string + DamageReport) \<Rightarrow> Host \<Rightarrow> UserAction \<Rightarrow> AppState \<Rightarrow>
     AppState \<times> Effect list" where
  "user_action analyzeDamage host (Select_file file) s =
     (if upload_area_rendered s then handleFileUpload analyzeDamage host file s else (s, []))"
| "user_action analyzeDamage host Click_reset s = (resetWorkflow s, [])"

text \<open>
  The states the component can be in. Between two suspension points of a handler the
  user may click, and a handler that was started before a reset still runs to its end,
  so every stretch of code above may run in every reachable state, on any arguments.
\<close>

inductive reachable :: "AppState \<Rightarrow> bool" where
  reach_initial: "reachable initialState"
| reach_reset: "reachable s \<Longrightarrow> reachable (resetWorkflow s)"
| reach_begin: "reachable s \<Longrightarrow> reachable (upload_begin s)"
| reach_loaded: "reachable s \<Longrightarrow> reachable (upload_loaded url s)"
| reach_analysed: "reachable s \<Longrightarrow> reachable (upload_analysed damageReport s)"
| reach_failed: "reachable s \<Longrightarrow> reachable (upload_failed s)"
| reach_step1: "reachable s \<Longrightarrow> reachable (handshake_step1 host damageReport s)"
| reach_step2: "reachable s \<Longrightarrow> reachable (handshake_step2 host damageReport s)"
| reach_step3: "reachable s \<Longrightarrow> reachable (handshake_step3 host damageReport s)"
| reach_finish: "reachable s \<Longrightarrow> reachable (handshake_finish host damageReport s)"

text \<open>
  The states between the user's actions in a session where every handler runs to its end
  before the next action: in such a state no handler is suspended and no timer is
  pending.
\<close>

inductive settled :: "AppState \<Rightarrow> bool" where
  settled_initial: "settled initialState"
| settled_action: "settled s \<Longrightarrow> settled (fst (user_action analyzeDamage host a s))"

section \<open>Notions used by the properties\<close>

text \<open>The entries that a run taking the state \<open>s\<close> to \<open>s'\<close> has put on the transcript.\<close>

definition appended :: "AppState \<Rightarrow> AppState \<Rightarrow> HandshakeLog list" where
  "appended s s' = drop (length (logs s)) (logs s')"

text \<open>
  The entries that the four stretches of one run of the handshake append, the stretches
  running in the states \<open>s1\<close> to \<open>s4\<close>.
\<close>

definition run_entries ::
  "Host \<Rightarrow> DamageReport \<Rightarrow> AppState \<Rightarrow> AppState \<Rightarrow> AppState \<Rightarrow> AppState \<Rightarrow>
     HandshakeLog list" where
  "run_entries host damageReport s1 s2 s3 s4 =
     appended s1 (handshake_step1 host damageReport s1) @
     appended s2 (handshake_step2 host damageReport s2) @
     appended s3 (handshake_step3 host damageReport s3) @
     appended s4 (handshake_finish host damageReport s4)"

text \<open>\<^verbatim>\<open>payload.method\<close>, when the payload is an object with a string under that key.\<close>

fun method_of :: "any \<Rightarrow> string option" where
  "method_of (Obj props) =
     (case map_of props ''method'' of Some (Str m) \<Rightarrow> Some m | _ \<Rightarrow> None)"
| "method_of _ = None"

fun opposite :: "Agent \<Rightarrow> Agent" where
  "opposite GoogleAgent = SalesforceAgent"
| "opposite SalesforceAgent = GoogleAgent"

text \<open>
  Every PROCESSED entry of a transcript has, at a smaller index, a SENT entry whose
  sender is the opposite agent.
\<close>

definition processed_after_sent :: "HandshakeLog list \<Rightarrow> bool" where
  "processed_after_sent es =
     list_all
       (\<lambda>j. Log.status (es ! j) = PROCESSED \<longrightarrow>
          list_ex (\<lambda>e. Log.status e = SENT \<and> from_agent e = opposite (from_agent (es ! j)))
            (take j es))
       [0..<length es]"

text \<open>The two fields of a claim result agree.\<close>

definition result_consistent :: "AppState \<Rightarrow> bool" where
  "result_consistent s =
     (case result s of
        None \<Rightarrow> True
      | Some cr \<Rightarrow> paymentInitiated cr = (ClaimResult.status cr = APPROVED))"

text \<open>The characters of \<^verbatim>\<open>Math.random().toString(36)\<close>.\<close>

definition base36 :: "string \<Rightarrow> bool" where
  "base36 d = list_all (\<lambda>c. c \<in> set ''0123456789abcdefghijklmnopqrstuvwxyz.'') d"

text \<open>Concrete inputs: the reports of the test scenarios, a host, a file, two gateways.\<close>

definition scenarioReport :: "real \<Rightarrow> Intensity \<Rightarrow> DamageReport" where
  "scenarioReport cost i =
     \<lparr>intensity = i, estimatedCost = Finite cost, identifiedItems = [''sofa'', ''drywall''],
      summary = ''Standing water on the ground floor'', structuralIntegrityRisk = False\<rparr>"

definition scenarioHost :: Host where
  "scenarioHost =
     \<lparr>reader_result = Some ''data:image/png;base64,iVBORw0KGgo='',
      toLocaleTimeString = (\<lambda>n. ''10:15:0'' @ [''0123456789'' ! n] @ '' AM''),
      random_toString36 = ''0.4fzyo82mvyr''\<rparr>"

definition secondHost :: Host where
  "secondHost = scenarioHost\<lparr>random_toString36 := ''0.4fzyo82mvzz''\<rparr>"

definition thirdHost :: Host where
  "thirdHost = scenarioHost\<lparr>random_toString36 := ''0.k3x9q1c7d2b''\<rparr>"

definition scenarioFile :: File where
  "scenarioFile = \<lparr>type = ''image/png''\<rparr>"

definition gatewayReturns ::
  "DamageReport \<Rightarrow> string option \<Rightarrow> string \<Rightarrow> string + DamageReport" where
  "gatewayReturns r base64 mimeType = Inr r"

definition gatewayThrows :: "string option \<Rightarrow> string \<Rightarrow> string + DamageReport" where
  "gatewayThrows base64 mimeType = Inl ''Error: damage not visible''"

text \<open>A report with the cost of the first scenario and nothing else in common with it.\<close>

definition otherReport :: DamageReport where
  "otherReport =
     \<lparr>intensity = Catastrophic, estimatedCost = Finite 3200, identifiedItems = [],
      summary = ''Roof collapsed'', structuralIntegrityRisk = True\<rparr>"

text \<open>
  A session of use: a first upload that runs to completion, a click on the reset button,
  and a second upload that runs to completion.
\<close>

definition firstRun :: AppState where
  "firstRun =
     fst (user_action (gatewayReturns (scenarioReport 3200 Moderate)) scenarioHost
            (Select_file (Some scenarioFile)) initialState)"

definition secondRun :: AppState where
  "secondRun =
     fst (user_action (gatewayReturns (scenarioReport 12000 Catastrophic)) secondHost
            (Select_file (Some scenarioFile))
            (fst (user_action gatewayThrows scenarioHost Click_reset firstRun)))"

text \<open>
  Schedules with a click on the reset button while a run is pending. \<open>resetWorkflow\<close>
  clears no timer, so the stretches of the pending run still execute. In all three the
  first upload (cost 3200) has reached the first timer of its handshake in the state
  \<open>runA_step1\<close>.
\<close>

definition scenarioUrl :: string where
  "scenarioUrl = ''data:image/png;base64,iVBORw0KGgo=''"

definition runA_step1 :: AppState where
  "runA_step1 =
     handshake_step1 scenarioHost (scenarioReport 3200 Moderate)
       (upload_analysed (scenarioReport 3200 Moderate)
          (upload_loaded scenarioUrl (upload_begin initialState)))"

text \<open>
  First schedule: the button is clicked during the first timer; the three timers then
  fire one after the other.
\<close>

definition resetDuringRun :: AppState where
  "resetDuringRun =
     handshake_finish scenarioHost (scenarioReport 3200 Moderate)
       (handshake_step3 scenarioHost (scenarioReport 3200 Moderate)
          (handshake_step2 scenarioHost (scenarioReport 3200 Moderate)
             (resetWorkflow runA_step1)))"

text \<open>
  Second schedule: the button is clicked during the first timer and a second file is
  selected in the state \<open>uploadB_start\<close>; while the gateway works on it the three timers
  of the first run fire; then the gateway throws.
\<close>

definition uploadB_start :: AppState where
  "uploadB_start = resetWorkflow runA_step1"

definition uploadB_failed :: AppState where
  "uploadB_failed =
     upload_failed
       (handshake_finish scenarioHost (scenarioReport 3200 Moderate)
          (handshake_step3 scenarioHost (scenarioReport 3200 Moderate)
             (handshake_step2 scenarioHost (scenarioReport 3200 Moderate)
                (upload_loaded scenarioUrl (upload_begin uploadB_start)))))"

text \<open>
  Third schedule: the button is clicked during the second timer of the first run, 1500 ms
  after its start, and a second upload (cost 12000) starts its handshake 2000 ms after
  the start of the first, in the state \<open>runB_start\<close>. The timers then fire in the order:
  third stretch of the first run (at 3000 ms), second stretch of the second (3500 ms),
  end of the first (4000 ms), third stretch and end of the second (5000 and 6000 ms).
\<close>

definition runB_start :: AppState where
  "runB_start =
     upload_analysed (scenarioReport 12000 Catastrophic)
       (upload_loaded scenarioUrl
          (upload_begin
             (resetWorkflow
                (handshake_step2 scenarioHost (scenarioReport 3200 Moderate) runA_step1))))"

definition runB_end :: AppState where
  "runB_end =
     handshake_finish secondHost (scenarioReport 12000 Catastrophic)
       (handshake_step3 secondHost (scenarioReport 12000 Catastrophic)
          (handshake_finish scenarioHost (scenarioReport 3200 Moderate)
             (handshake_step2 secondHost (scenarioReport 12000 Catastrophic)
                (handshake_step3 scenarioHost (scenarioReport 3200 Moderate)
                   (handshake_step1 secondHost (scenarioReport 12000 Catastrophic)
                      runB_start)))))"

section \<open>Properties of the handshake\<close>

lemmas handshake_defs =
  performA2AHandshake_def handshake_finish_def handshake_step3_def handshake_step2_def
  handshake_step1_def addLog_def Log.extend_def

lemmas stretch_defs =
  resetWorkflow_def upload_begin_def upload_loaded_def upload_analysed_def upload_failed_def
  handshake_step1_def handshake_step2_def handshake_step3_def handshake_finish_def addLog_def

lemma result_performA2AHandshake:
  "result (performA2AHandshake host r s) =
     Some \<lparr>status = (if isApproved r then APPROVED else MANUAL_REVIEW),
           paymentInitiated = isApproved r,
           referenceId = newReferenceId host,
           report = r\<rparr>"
  by (simp add: performA2AHandshake_def handshake_finish_def)

lemma step_performA2AHandshake: "step (performA2AHandshake host r s) = COMPLETED"
  by (simp add: performA2AHandshake_def handshake_finish_def)

lemma logs_performA2AHandshake:
  "logs (performA2AHandshake host r s) = logs s @ appended s (performA2AHandshake host r s)"
  by (simp add: handshake_defs appended_def)

lemma appended_approved:
  "isApproved r \<Longrightarrow>
   \<exists>p e st. appended s (performA2AHandshake host r s) = [p, e, st] \<and>
     from_agent p = GoogleAgent \<and> to_agent p = SalesforceAgent \<and> protocol p = A2A \<and>
     Log.status p = SENT \<and> method_of (payload p) = Some ''PROPOSE_CLAIM'' \<and>
     from_agent e = SalesforceAgent \<and> to_agent e = GoogleAgent \<and> protocol e = A2A \<and>
     Log.status e = PROCESSED \<and> method_of (payload e) = Some ''EVALUATE_POLICY'' \<and>
     from_agent st = SalesforceAgent \<and> to_agent st = SalesforceAgent \<and> protocol st = AP2 \<and>
     Log.status st = SENT \<and> method_of (payload st) = Some ''INITIATE_PAYMENT''"
  by (simp add: handshake_defs appended_def)

lemma appended_review:
  "\<not> isApproved r \<Longrightarrow>
   \<exists>p e. appended s (performA2AHandshake host r s) = [p, e] \<and>
     from_agent p = GoogleAgent \<and> to_agent p = SalesforceAgent \<and> protocol p = A2A \<and>
     Log.status p = SENT \<and> method_of (payload p) = Some ''PROPOSE_CLAIM'' \<and>
     from_agent e = SalesforceAgent \<and> to_agent e = GoogleAgent \<and> protocol e = A2A \<and>
     Log.status e = PROCESSED \<and> method_of (payload e) = Some ''EVALUATE_POLICY''"
  by (simp add: handshake_defs appended_def)

lemma length_appended:
  "length (appended s (performA2AHandshake host r s)) = (if isApproved r then 3 else 2)"
  by (simp add: handshake_defs appended_def)

lemma js_greater_eq_not_less: "js_greater_eq a b \<Longrightarrow> \<not> js_less a b"
  by (cases a; cases b) simp_all

lemma isApproved_scenario_3200: "isApproved (scenarioReport 3200 i)"
  by (simp add: isApproved_def scenarioReport_def APPROVAL_THRESHOLD_def)

text \<open>
  What a stretch of the handshake appends does not depend on the state it runs in, so
  the entries of a run are the same whatever happens between its stretches.
\<close>

lemma appended_stretches:
  "appended s (performA2AHandshake host r s) =
     appended s1 (handshake_step1 host r s1) @ appended s2 (handshake_step2 host r s2) @
     appended s3 (handshake_step3 host r s3) @ appended s4 (handshake_finish host r s4)"
  by (simp add: handshake_defs appended_def)

text \<open>A cost that is not a number is not below the threshold.\<close>

lemma NaN_not_approved: "estimatedCost r = NaN \<Longrightarrow> \<not> isApproved r"
  by (simp add: isApproved_def)

text \<open>
  Claim C1. For every damage report, the status of the claim result that the handshake
  sets is APPROVED exactly when the estimated cost is strictly below the approval
  threshold, the threshold is 5000, and a report whose cost is the threshold itself gets
  MANUAL_REVIEW.
\<close>

theorem C1_status_iff_below_threshold:
  "APPROVAL_THRESHOLD = Finite 5000 \<and>
   (\<exists>cr. result (performA2AHandshake host r s) = Some cr \<and>
      (ClaimResult.status cr = APPROVED) = js_less (estimatedCost r) APPROVAL_THRESHOLD) \<and>
   map_option ClaimResult.status
     (result (performA2AHandshake host (r\<lparr>estimatedCost := APPROVAL_THRESHOLD\<rparr>) s)) =
     Some MANUAL_REVIEW"
  by (simp add: result_performA2AHandshake isApproved_def APPROVAL_THRESHOLD_def)

text \<open>The three scenarios: costs 3200, 5000 and 12000.\<close>

theorem C1_witness:
  "map_option ClaimResult.status
     (result (performA2AHandshake scenarioHost (scenarioReport 3200 Moderate) initialState)) =
     Some APPROVED \<and>
   map_option ClaimResult.status
     (result (performA2AHandshake scenarioHost (scenarioReport 5000 Severe) initialState)) =
     Some MANUAL_REVIEW \<and>
   map_option ClaimResult.status
     (result (performA2AHandshake scenarioHost (scenarioReport 12000 Catastrophic) initialState)) =
     Some MANUAL_REVIEW"
proof -
  have costs:
    "js_less (estimatedCost (scenarioReport 3200 Moderate)) APPROVAL_THRESHOLD"
    "\<not> js_less (estimatedCost (scenarioReport 5000 Severe)) APPROVAL_THRESHOLD"
    "\<not> js_less (estimatedCost (scenarioReport 12000 Catastrophic)) APPROVAL_THRESHOLD"
    by (simp_all add: scenarioReport_def APPROVAL_THRESHOLD_def)
  note t1 = C1_status_iff_below_threshold
    [of scenarioHost "scenarioReport 3200 Moderate" initialState]
  note t2 = C1_status_iff_below_threshold
    [of scenarioHost "scenarioReport 5000 Severe" initialState]
  note t3 = C1_status_iff_below_threshold
    [of scenarioHost "scenarioReport 12000 Catastrophic" initialState]
  have "map_option ClaimResult.status
     (result (performA2AHandshake scenarioHost (scenarioReport 3200 Moderate) initialState)) =
     Some APPROVED"
    using t1 costs(1) by auto
  moreover have "map_option ClaimResult.status
     (result (performA2AHandshake scenarioHost (scenarioReport 5000 Severe) initialState)) =
     Some MANUAL_REVIEW"
    using t2 costs(2) by (auto intro: ClaimStatus.exhaust)
  moreover have "map_option ClaimResult.status
     (result (performA2AHandshake scenarioHost (scenarioReport 12000 Catastrophic) initialState)) =
     Some MANUAL_REVIEW"
    using t3 costs(3) by (auto intro: ClaimStatus.exhaust)
  ultimately show ?thesis
    by blast
qed

text \<open>
  Claim C10. The disposition depends on the estimated cost alone: two runs of the
  handshake on reports with the same estimated cost, whatever their other fields, the
  host's readings and the states the runs start in, set the same status and the same
  paymentInitiated flag and append the same number of transcript entries.
\<close>

theorem C10_disposition_depends_on_cost_only:
  "estimatedCost r1 = estimatedCost r2 \<Longrightarrow>
   map_option ClaimResult.status (result (performA2AHandshake host1 r1 s1)) =
     map_option ClaimResult.status (result (performA2AHandshake host2 r2 s2)) \<and>
   map_option paymentInitiated (result (performA2AHandshake host1 r1 s1)) =
     map_option paymentInitiated (result (performA2AHandshake host2 r2 s2)) \<and>
   length (appended s1 (performA2AHandshake host1 r1 s1)) =
     length (appended s2 (performA2AHandshake host2 r2 s2))"
  by (simp add: result_performA2AHandshake length_appended isApproved_def)

theorem C10_witness:
  "intensity (scenarioReport 3200 Moderate) \<noteq> intensity otherReport \<and>
   identifiedItems (scenarioReport 3200 Moderate) \<noteq> identifiedItems otherReport \<and>
   summary (scenarioReport 3200 Moderate) \<noteq> summary otherReport \<and>
   structuralIntegrityRisk (scenarioReport 3200 Moderate) \<noteq> structuralIntegrityRisk otherReport \<and>
   map_option ClaimResult.status
     (result (performA2AHandshake scenarioHost (scenarioReport 3200 Moderate) initialState)) =
     map_option ClaimResult.status
       (result (performA2AHandshake thirdHost otherReport firstRun)) \<and>
   map_option paymentInitiated
     (result (performA2AHandshake scenarioHost (scenarioReport 3200 Moderate) initialState)) =
     map_option paymentInitiated
       (result (performA2AHandshake thirdHost otherReport firstRun)) \<and>
   length (appended initialState
     (performA2AHandshake scenarioHost (scenarioReport 3200 Moderate) initialState)) =
     length (appended firstRun (performA2AHandshake thirdHost otherReport firstRun))"
proof -
  have same: "estimatedCost (scenarioReport 3200 Moderate) = estimatedCost otherReport"
    by (simp add: scenarioReport_def otherReport_def)
  have differ:
    "intensity (scenarioReport 3200 Moderate) \<noteq> intensity otherReport"
    "identifiedItems (scenarioReport 3200 Moderate) \<noteq> identifiedItems otherReport"
    "summary (scenarioReport 3200 Moderate) \<noteq> summary otherReport"
    "structuralIntegrityRisk (scenarioReport 3200 Moderate) \<noteq> structuralIntegrityRisk otherReport"
    by (simp_all add: scenarioReport_def otherReport_def)
  from differ
    C10_disposition_depends_on_cost_only
      [OF same, of scenarioHost initialState thirdHost firstRun]
  show ?thesis
    by blast
qed

section \<open>Properties of the reachable states\<close>

lemma reachable_result_consistent: "reachable s \<Longrightarrow> result_consistent s"
  by (induction rule: reachable.induct)
     (simp_all add: result_consistent_def initialState_def stretch_defs)

lemma reachable_statuses:
  "reachable s \<Longrightarrow> list_all (\<lambda>e. Log.status e = SENT \<or> Log.status e = PROCESSED) (logs s)"
  by (induction rule: reachable.induct)
     (simp_all add: initialState_def stretch_defs Log.extend_def)

lemma reachable_performA2AHandshake:
  "reachable s \<Longrightarrow> reachable (performA2AHandshake host r s)"
  unfolding performA2AHandshake_def
  by (intro reach_finish reach_step3 reach_step2 reach_step1)

lemma reachable_handleFileUpload:
  "reachable s \<Longrightarrow> reachable (fst (handleFileUpload analyzeDamage host file s))"
  by (auto simp: handleFileUpload_def onloadend_def Let_def
      split: option.splits sum.splits
      intro: reach_begin reach_loaded reach_analysed reach_failed reachable_performA2AHandshake)

lemma reachable_user_action:
  "reachable s \<Longrightarrow> reachable (fst (user_action analyzeDamage host a s))"
  by (cases a) (simp_all add: reachable_handleFileUpload reach_reset)

lemma reachable_firstRun: "reachable firstRun"
  unfolding firstRun_def by (intro reachable_user_action reach_initial)

lemma reachable_secondRun: "reachable secondRun"
  unfolding secondRun_def by (intro reachable_user_action reachable_firstRun)

text \<open>
  The transcript of a reachable state need not be the transcript of one run: after a
  click on the reset button between the first two stretches of a run, the transcript
  begins with the evaluation entry.
\<close>

lemma reset_between_stretches:
  "reachable (handshake_step2 host r (resetWorkflow (handshake_step1 host r initialState))) \<and>
   map Log.status
     (logs (handshake_step2 host r (resetWorkflow (handshake_step1 host r initialState)))) =
     [PROCESSED]"
  by (simp add: reach_initial reach_step1 reach_reset reach_step2)
     (simp add: stretch_defs Log.extend_def)

text \<open>
  Claim C4. The claim result that a run of the handshake sets has paymentInitiated true
  exactly when its status is APPROVED; and so has the result, if there is one, of every
  state the component can reach.
\<close>

theorem C4_payment_iff_approved:
  "(\<exists>cr. result (performA2AHandshake host r s) = Some cr \<and>
      paymentInitiated cr = (ClaimResult.status cr = APPROVED)) \<and>
   (reachable s \<longrightarrow> result_consistent s)"
  by (simp add: result_performA2AHandshake reachable_result_consistent)

theorem C4_witness:
  "reachable secondRun \<and> result_consistent secondRun \<and>
   (\<exists>cr. result (performA2AHandshake scenarioHost (scenarioReport 5000 Severe) secondRun) = Some cr \<and>
      paymentInitiated cr = (ClaimResult.status cr = APPROVED))"
  using C4_payment_iff_approved [of scenarioHost "scenarioReport 5000 Severe" secondRun]
    reachable_secondRun
  by blast

text \<open>
  Claim C9. Every entry that a run of the handshake appends has status SENT or
  PROCESSED, and in no state the component can reach does the transcript hold an entry
  of status RECEIVED.
\<close>

theorem C9_no_received_entry:
  "list_all (\<lambda>e. Log.status e = SENT \<or> Log.status e = PROCESSED)
     (appended s (performA2AHandshake host r s)) \<and>
   (reachable s \<longrightarrow> list_all (\<lambda>e. Log.status e \<noteq> RECEIVED) (logs s))"
proof
  show "list_all (\<lambda>e. Log.status e = SENT \<or> Log.status e = PROCESSED)
     (appended s (performA2AHandshake host r s))"
    by (simp add: handshake_defs appended_def)
  show "reachable s \<longrightarrow> list_all (\<lambda>e. Log.status e \<noteq> RECEIVED) (logs s)"
  proof
    assume "reachable s"
    from reachable_statuses [OF this] show "list_all (\<lambda>e. Log.status e \<noteq> RECEIVED) (logs s)"
      by (auto simp: list_all_iff)
  qed
qed

theorem C9_witness:
  "reachable firstRun \<and> length (logs firstRun) = 3 \<and>
   list_all (\<lambda>e. Log.status e \<noteq> RECEIVED) (logs firstRun)"
proof -
  have "length (logs firstRun) = 3"
    using length_appended [of "upload_analysed (scenarioReport 3200 Moderate)
        (upload_loaded ''data:image/png;base64,iVBORw0KGgo='' (upload_begin initialState))"
      scenarioHost "scenarioReport 3200 Moderate"]
    by (simp add: firstRun_def upload_area_rendered_def handleFileUpload_def onloadend_def
        scenarioHost_def gatewayReturns_def Let_def isApproved_scenario_3200 appended_def
        initialState_def upload_begin_def upload_loaded_def upload_analysed_def)
  with C9_no_received_entry [of firstRun scenarioHost "scenarioReport 3200 Moderate"]
    reachable_firstRun
  show ?thesis
    by blast
qed

section \<open>Properties of the upload handler, the reset and the controls\<close>

text \<open>
  The handler has no test of the step of its own: called with a file that the reader
  can read and the gateway can assess, it runs to COMPLETED from every state.
\<close>

lemma handleFileUpload_success:
  assumes "reader_result host = Some url"
    and "analyzeDamage (at_index (split CHR '','' url) 1) (type file) = Inr r"
  shows "step (fst (handleFileUpload analyzeDamage host (Some file) s)) = COMPLETED \<and>
    report (fst (handleFileUpload analyzeDamage host (Some file) s)) = Some r \<and>
    previewUrl (fst (handleFileUpload analyzeDamage host (Some file) s)) = Some url \<and>
    result (fst (handleFileUpload analyzeDamage host (Some file) s)) =
      result (performA2AHandshake host r s) \<and>
    appended s (fst (handleFileUpload analyzeDamage host (Some file) s)) =
      appended s (performA2AHandshake host r s)"
  using assms
  by (simp add: handleFileUpload_def onloadend_def Let_def upload_begin_def upload_loaded_def
      upload_analysed_def handshake_defs appended_def)

lemma handleFileUpload_no_file: "handleFileUpload analyzeDamage host None s = (s, [])"
  by (simp add: handleFileUpload_def)

lemma step_firstRun: "step firstRun = COMPLETED"
  using handleFileUpload_success
    [of scenarioHost "''data:image/png;base64,iVBORw0KGgo=''"
      "gatewayReturns (scenarioReport 3200 Moderate)" scenarioFile "scenarioReport 3200 Moderate"
      initialState]
  by (simp add: firstRun_def upload_area_rendered_def initialState_def scenarioHost_def
      gatewayReturns_def)

lemma step_secondRun: "step secondRun = COMPLETED"
  using handleFileUpload_success
    [of secondHost "''data:image/png;base64,iVBORw0KGgo=''"
      "gatewayReturns (scenarioReport 12000 Catastrophic)" scenarioFile
      "scenarioReport 12000 Catastrophic" "resetWorkflow firstRun"]
  by (simp add: secondRun_def upload_area_rendered_def resetWorkflow_def scenarioHost_def
      secondHost_def gatewayReturns_def)

text \<open>
  Claim C5. From every state, also one whose step is COMPLETED, resetWorkflow leads to
  the state with step IDLE, no report, an empty transcript and no result (and no
  preview), which is the initial state; and the reset button is there in every state.
\<close>

theorem C5_reset_clears:
  "step (resetWorkflow s) = IDLE \<and> report (resetWorkflow s) = None \<and>
   logs (resetWorkflow s) = [] \<and> result (resetWorkflow s) = None \<and>
   previewUrl (resetWorkflow s) = None \<and>
   resetWorkflow s = initialState \<and>
   user_action analyzeDamage host Click_reset s = (initialState, [])"
  by (simp add: resetWorkflow_def initialState_def)

theorem C5_witness:
  "step firstRun = COMPLETED \<and> resetWorkflow firstRun = initialState \<and>
   step (resetWorkflow (upload_begin initialState)) = IDLE"
  using C5_reset_clears [of firstRun gatewayThrows scenarioHost]
    C5_reset_clears [of "upload_begin initialState" gatewayThrows scenarioHost] step_firstRun
  by blast

text \<open>
  Claim C8. In a state whose step is not IDLE the upload area is not rendered, and the
  selection of a file changes nothing: the state stays as it is and nothing else
  happens.
\<close>

theorem C8_upload_ignored_unless_idle:
  "step s \<noteq> IDLE \<Longrightarrow> user_action analyzeDamage host (Select_file file) s = (s, [])"
  by (simp add: upload_area_rendered_def)

theorem C8_witness:
  "step firstRun = COMPLETED \<and>
   user_action (gatewayReturns otherReport) secondHost (Select_file (Some scenarioFile)) firstRun =
     (firstRun, []) \<and>
   user_action (gatewayReturns otherReport) secondHost (Select_file (Some scenarioFile))
     (upload_begin initialState) = (upload_begin initialState, [])"
proof -
  have "step firstRun \<noteq> IDLE"
    by (simp add: step_firstRun)
  moreover have "step (upload_begin initialState) \<noteq> IDLE"
    by (simp add: upload_begin_def)
  ultimately show ?thesis
    using step_firstRun
      C8_upload_ignored_unless_idle
        [of firstRun "gatewayReturns otherReport" secondHost "Some scenarioFile"]
      C8_upload_ignored_unless_idle
        [of "upload_begin initialState" "gatewayReturns otherReport" secondHost
          "Some scenarioFile"]
    by simp
qed

section \<open>Runs, pending runs and the transcript\<close>

text \<open>
  In a session where every handler runs to its end before the next action, a state with
  step IDLE is clean.
\<close>

lemma settled_idle:
  "settled s \<Longrightarrow> step s = IDLE \<Longrightarrow> report s = None \<and> logs s = [] \<and> result s = None"
proof (induction rule: settled.induct)
  case settled_initial
  show ?case by (simp add: initialState_def)
next
  case (settled_action s analyzeDamage host a)
  show ?case
  proof (cases a)
    case Click_reset
    then show ?thesis by (simp add: resetWorkflow_def)
  next
    case (Select_file f)
    show ?thesis
    proof (cases "step s = IDLE")
      case False
      with settled_action.prems Select_file show ?thesis
        by (simp add: upload_area_rendered_def)
    next
      case True
      with settled_action.IH have clean: "report s = None" "logs s = []" "result s = None"
        by simp_all
      from settled_action.prems Select_file True clean show ?thesis
        by (auto simp: upload_area_rendered_def handleFileUpload_def onloadend_def Let_def
            upload_begin_def upload_loaded_def upload_failed_def step_performA2AHandshake
            split: option.splits sum.splits)
    qed
  qed
qed

lemma settled_reachable: "settled s \<Longrightarrow> reachable s"
  by (induction rule: settled.induct) (simp_all add: reach_initial reachable_user_action)

lemma appended_run_entries:
  "appended s (performA2AHandshake host r s) = run_entries host r s1 s2 s3 s4"
  unfolding run_entries_def by (rule appended_stretches)

lemmas schedule_defs =
  runA_step1_def resetDuringRun_def uploadB_start_def uploadB_failed_def runB_start_def
  runB_end_def

lemmas reachable_stretches =
  reach_initial reach_reset reach_begin reach_loaded reach_analysed reach_failed reach_step1
  reach_step2 reach_step3 reach_finish

lemma logs_stretches:
  "logs (handshake_step1 host r s) = logs s @ appended s (handshake_step1 host r s)"
  "logs (handshake_step2 host r s) = logs s @ appended s (handshake_step2 host r s)"
  "logs (handshake_step3 host r s) = logs s @ appended s (handshake_step3 host r s)"
  "logs (handshake_finish host r s) = logs s @ appended s (handshake_finish host r s)"
  by (simp_all add: handshake_defs appended_def)

lemma run_entries_approved:
  "isApproved r \<Longrightarrow>
   \<exists>p e st. run_entries host r s1 s2 s3 s4 = [p, e, st] \<and>
     from_agent p = GoogleAgent \<and> to_agent p = SalesforceAgent \<and> protocol p = A2A \<and>
     Log.status p = SENT \<and> method_of (payload p) = Some ''PROPOSE_CLAIM'' \<and>
     from_agent e = SalesforceAgent \<and> to_agent e = GoogleAgent \<and> protocol e = A2A \<and>
     Log.status e = PROCESSED \<and> method_of (payload e) = Some ''EVALUATE_POLICY'' \<and>
     from_agent st = SalesforceAgent \<and> to_agent st = SalesforceAgent \<and> protocol st = AP2 \<and>
     Log.status st = SENT \<and> method_of (payload st) = Some ''INITIATE_PAYMENT''"
  using appended_approved [of r initialState host]
  by (simp add: appended_run_entries [of initialState host r s1 s2 s3 s4])

lemma run_entries_review:
  "\<not> isApproved r \<Longrightarrow>
   \<exists>p e. run_entries host r s1 s2 s3 s4 = [p, e] \<and>
     from_agent p = GoogleAgent \<and> to_agent p = SalesforceAgent \<and> protocol p = A2A \<and>
     Log.status p = SENT \<and> method_of (payload p) = Some ''PROPOSE_CLAIM'' \<and>
     from_agent e = SalesforceAgent \<and> to_agent e = GoogleAgent \<and> protocol e = A2A \<and>
     Log.status e = PROCESSED \<and> method_of (payload e) = Some ''EVALUATE_POLICY''"
  using appended_review [of r initialState host]
  by (simp add: appended_run_entries [of initialState host r s1 s2 s3 s4])

lemma length_run_entries:
  "length (run_entries host r s1 s2 s3 s4) = (if isApproved r then 3 else 2)"
  using length_appended [of initialState host r]
  by (simp add: appended_run_entries [of initialState host r s1 s2 s3 s4])

lemma logs_settled_upload:
  assumes "settled s" and "step s = IDLE" and "reader_result host = Some url"
    and "analyzeDamage (at_index (split CHR '','' url) 1) (type f) = Inr r"
  shows "logs (fst (user_action analyzeDamage host (Select_file (Some f)) s)) =
    run_entries host r s1 s2 s3 s4"
proof -
  have "logs s = []"
    using settled_idle [OF assms(1,2)] by simp
  then have "appended s (fst (handleFileUpload analyzeDamage host (Some f) s)) =
      logs (fst (handleFileUpload analyzeDamage host (Some f) s))"
    by (simp add: appended_def)
  with handleFileUpload_success [of host url analyzeDamage f r s] assms(2,3,4) show ?thesis
    by (simp add: upload_area_rendered_def appended_run_entries [of s host r s1 s2 s3 s4])
qed

text \<open>
  Claim C2, as stated, fails. In the third schedule the second run is on a report of cost
  12000 and starts on an empty transcript; the first run, which the reset left pending,
  appends its payment entry meanwhile, and the session ends with the result
  MANUAL_REVIEW and an entry tagged AP2 in the transcript.
\<close>

theorem C2_counterexample:
  "js_greater_eq (estimatedCost (scenarioReport 12000 Catastrophic)) APPROVAL_THRESHOLD \<and>
   logs runB_start = [] \<and> reachable runB_end \<and>
   map_option ClaimResult.status (result runB_end) = Some MANUAL_REVIEW \<and>
   map protocol (logs runB_end) = [A2A, AP2, A2A] \<and>
   map (\<lambda>e. method_of (payload e)) (logs runB_end) =
     [Some ''PROPOSE_CLAIM'', Some ''INITIATE_PAYMENT'', Some ''EVALUATE_POLICY'']"
proof -
  have "js_greater_eq (estimatedCost (scenarioReport 12000 Catastrophic)) APPROVAL_THRESHOLD"
    by (simp add: scenarioReport_def APPROVAL_THRESHOLD_def)
  moreover have "logs runB_start = []"
    by (simp add: schedule_defs stretch_defs)
  moreover have "reachable runB_end"
    by (simp add: schedule_defs reachable_stretches)
  moreover have "\<not> isApproved (scenarioReport 12000 Catastrophic)"
    by (simp add: isApproved_def scenarioReport_def APPROVAL_THRESHOLD_def)
  then have "map_option ClaimResult.status (result runB_end) = Some MANUAL_REVIEW"
    "map protocol (logs runB_end) = [A2A, AP2, A2A]"
    "map (\<lambda>e. method_of (payload e)) (logs runB_end) =
       [Some ''PROPOSE_CLAIM'', Some ''INITIATE_PAYMENT'', Some ''EVALUATE_POLICY'']"
    by (simp_all add: schedule_defs stretch_defs initialState_def isApproved_scenario_3200
        Log.extend_def)
  ultimately show ?thesis
    by blast
qed

text \<open>
  Claim C2, amended. Each stretch of the handshake only appends to the transcript.
  Whatever states its stretches run in, one run appends exactly 3 entries for a report
  whose cost is below the threshold, and exactly 2, none of them tagged AP2, for a report
  whose cost is greater than or equal to the threshold. When nothing else executes
  during the run, the transcript after it is the transcript before it followed by these
  entries, and for a cost greater than or equal to the threshold it holds an AP2 entry
  only if it held one before. In a session where every handler runs to its end before
  the next action, the transcript after an upload is exactly the entries of its run,
  with no AP2 entry for a cost greater than or equal to the threshold.
\<close>

theorem C2_transcript_length:
  "logs (handshake_step1 host r s1) = logs s1 @ appended s1 (handshake_step1 host r s1) \<and>
   logs (handshake_step2 host r s2) = logs s2 @ appended s2 (handshake_step2 host r s2) \<and>
   logs (handshake_step3 host r s3) = logs s3 @ appended s3 (handshake_step3 host r s3) \<and>
   logs (handshake_finish host r s4) = logs s4 @ appended s4 (handshake_finish host r s4) \<and>
   (js_less (estimatedCost r) APPROVAL_THRESHOLD \<longrightarrow>
      length (run_entries host r s1 s2 s3 s4) = 3) \<and>
   (js_greater_eq (estimatedCost r) APPROVAL_THRESHOLD \<longrightarrow>
      length (run_entries host r s1 s2 s3 s4) = 2 \<and>
      list_all (\<lambda>e. protocol e \<noteq> AP2) (run_entries host r s1 s2 s3 s4)) \<and>
   logs (performA2AHandshake host r s) = logs s @ run_entries host r s1 s2 s3 s4 \<and>
   (js_greater_eq (estimatedCost r) APPROVAL_THRESHOLD \<longrightarrow>
      list_ex (\<lambda>e. protocol e = AP2) (logs (performA2AHandshake host r s)) =
        list_ex (\<lambda>e. protocol e = AP2) (logs s)) \<and>
   (settled s \<longrightarrow> step s = IDLE \<longrightarrow> reader_result host = Some url \<longrightarrow>
    analyzeDamage (at_index (split CHR '','' url) 1) (type f) = Inr r \<longrightarrow>
      logs (fst (user_action analyzeDamage host (Select_file (Some f)) s)) =
        run_entries host r s1 s2 s3 s4 \<and>
      (js_greater_eq (estimatedCost r) APPROVAL_THRESHOLD \<longrightarrow>
         list_all (\<lambda>e. protocol e \<noteq> AP2)
           (logs (fst (user_action analyzeDamage host (Select_file (Some f)) s)))))"
proof -
  have review: "length (run_entries host r s1 s2 s3 s4) = 2 \<and>
      list_all (\<lambda>e. protocol e \<noteq> AP2) (run_entries host r s1 s2 s3 s4)"
    if "js_greater_eq (estimatedCost r) APPROVAL_THRESHOLD"
  proof -
    from that have "\<not> isApproved r"
      by (simp add: isApproved_def js_greater_eq_not_less)
    from run_entries_review [OF this, of host s1 s2 s3 s4] show ?thesis
      by auto
  qed
  have whole: "logs (performA2AHandshake host r s) = logs s @ run_entries host r s1 s2 s3 s4"
    using logs_performA2AHandshake [of host r s]
    by (simp add: appended_run_entries [of s host r s1 s2 s3 s4])
  have "js_less (estimatedCost r) APPROVAL_THRESHOLD \<longrightarrow>
      length (run_entries host r s1 s2 s3 s4) = 3"
    by (simp add: length_run_entries isApproved_def)
  moreover have "js_greater_eq (estimatedCost r) APPROVAL_THRESHOLD \<longrightarrow>
      list_ex (\<lambda>e. protocol e = AP2) (logs (performA2AHandshake host r s)) =
        list_ex (\<lambda>e. protocol e = AP2) (logs s)"
    using review by (auto simp: whole list_all_iff list_ex_iff)
  moreover have "settled s \<longrightarrow> step s = IDLE \<longrightarrow> reader_result host = Some url \<longrightarrow>
    analyzeDamage (at_index (split CHR '','' url) 1) (type f) = Inr r \<longrightarrow>
      logs (fst (user_action analyzeDamage host (Select_file (Some f)) s)) =
        run_entries host r s1 s2 s3 s4 \<and>
      (js_greater_eq (estimatedCost r) APPROVAL_THRESHOLD \<longrightarrow>
         list_all (\<lambda>e. protocol e \<noteq> AP2)
           (logs (fst (user_action analyzeDamage host (Select_file (Some f)) s))))"
    using review logs_settled_upload [of s host url analyzeDamage f r s1 s2 s3 s4]
    by auto
  ultimately show ?thesis
    using review whole logs_stretches [of host r] by blast
qed

theorem C2_witness:
  "length (run_entries scenarioHost (scenarioReport 3200 Moderate)
      initialState resetDuringRun uploadB_failed runB_end) = 3 \<and>
   length (logs (fst (user_action (gatewayReturns (scenarioReport 5000 Severe)) scenarioHost
      (Select_file (Some scenarioFile)) initialState))) = 2 \<and>
   list_all (\<lambda>e. protocol e \<noteq> AP2)
     (logs (fst (user_action (gatewayReturns (scenarioReport 5000 Severe)) scenarioHost
        (Select_file (Some scenarioFile)) initialState))) \<and>
   length (run_entries scenarioHost (scenarioReport 12000 Catastrophic)
      initialState resetDuringRun uploadB_failed runB_end) = 2"
proof -
  have below: "js_less (estimatedCost (scenarioReport 3200 Moderate)) APPROVAL_THRESHOLD"
    by (simp add: scenarioReport_def APPROVAL_THRESHOLD_def)
  have equal: "js_greater_eq (estimatedCost (scenarioReport 5000 Severe)) APPROVAL_THRESHOLD"
    by (simp add: scenarioReport_def APPROVAL_THRESHOLD_def)
  have above: "js_greater_eq (estimatedCost (scenarioReport 12000 Catastrophic)) APPROVAL_THRESHOLD"
    by (simp add: scenarioReport_def APPROVAL_THRESHOLD_def)
  have start: "settled initialState" "step initialState = IDLE"
    by (rule settled_initial) (simp add: initialState_def)
  have reader: "reader_result scenarioHost = Some scenarioUrl"
    by (simp add: scenarioHost_def scenarioUrl_def)
  have gateway: "gatewayReturns (scenarioReport 5000 Severe)
      (at_index (split CHR '','' scenarioUrl) 1) (type scenarioFile) = Inr (scenarioReport 5000 Severe)"
    by (simp add: gatewayReturns_def)
  note t1 = C2_transcript_length [of scenarioHost "scenarioReport 3200 Moderate"
      initialState resetDuringRun uploadB_failed runB_end initialState scenarioUrl
      "gatewayReturns (scenarioReport 3200 Moderate)" scenarioFile]
  note t2 = C2_transcript_length [of scenarioHost "scenarioReport 5000 Severe"
      initialState resetDuringRun uploadB_failed runB_end initialState scenarioUrl
      "gatewayReturns (scenarioReport 5000 Severe)" scenarioFile]
  note t3 = C2_transcript_length [of scenarioHost "scenarioReport 12000 Catastrophic"
      initialState resetDuringRun uploadB_failed runB_end initialState scenarioUrl
      "gatewayReturns (scenarioReport 12000 Catastrophic)" scenarioFile]
  have "logs (fst (user_action (gatewayReturns (scenarioReport 5000 Severe)) scenarioHost
      (Select_file (Some scenarioFile)) initialState)) =
      run_entries scenarioHost (scenarioReport 5000 Severe)
        initialState resetDuringRun uploadB_failed runB_end"
    using t2 start reader gateway by blast
  moreover have "length (run_entries scenarioHost (scenarioReport 5000 Severe)
        initialState resetDuringRun uploadB_failed runB_end) = 2"
    using t2 equal by blast
  moreover have "list_all (\<lambda>e. protocol e \<noteq> AP2)
     (logs (fst (user_action (gatewayReturns (scenarioReport 5000 Severe)) scenarioHost
        (Select_file (Some scenarioFile)) initialState)))"
    using t2 start reader gateway equal by blast
  moreover have "length (run_entries scenarioHost (scenarioReport 3200 Moderate)
      initialState resetDuringRun uploadB_failed runB_end) = 3"
    using t1 below by blast
  moreover have "length (run_entries scenarioHost (scenarioReport 12000 Catastrophic)
      initialState resetDuringRun uploadB_failed runB_end) = 2"
    using t3 above by blast
  ultimately show ?thesis
    by simp
qed

text \<open>
  Claim C3, as stated, fails. In the first schedule one run, with a click on the reset
  button during its first timer, leaves the transcript of two entries: the evaluation
  (PROCESSED, sent by SalesforceAgent) and the settlement (SENT, sent by SalesforceAgent).
  The proposal is not in it, and the PROCESSED entry has no SENT entry before it.
\<close>

theorem C3_counterexample:
  "reachable resetDuringRun \<and>
   map Log.status (logs resetDuringRun) = [PROCESSED, SENT] \<and>
   map from_agent (logs resetDuringRun) = [SalesforceAgent, SalesforceAgent] \<and>
   map (\<lambda>e. method_of (payload e)) (logs resetDuringRun) =
     [Some ''EVALUATE_POLICY'', Some ''INITIATE_PAYMENT''] \<and>
   \<not> processed_after_sent (logs resetDuringRun)"
proof -
  have r: "reachable resetDuringRun"
    by (simp add: schedule_defs reachable_stretches)
  have "\<exists>e st. logs resetDuringRun = [e, st] \<and>
      Log.status e = PROCESSED \<and> from_agent e = SalesforceAgent \<and>
      method_of (payload e) = Some ''EVALUATE_POLICY'' \<and>
      Log.status st = SENT \<and> from_agent st = SalesforceAgent \<and>
      method_of (payload st) = Some ''INITIATE_PAYMENT''"
    by (simp add: schedule_defs stretch_defs initialState_def isApproved_scenario_3200
        Log.extend_def)
  then obtain e st where es: "logs resetDuringRun = [e, st]"
    "Log.status e = PROCESSED" "from_agent e = SalesforceAgent"
    "method_of (payload e) = Some ''EVALUATE_POLICY''"
    "Log.status st = SENT" "from_agent st = SalesforceAgent"
    "method_of (payload st) = Some ''INITIATE_PAYMENT''"
    by blast
  have "\<not> processed_after_sent [e, st]"
    using es(2,5) by (simp add: processed_after_sent_def upt_rec)
  with r es show ?thesis
    by simp
qed

text \<open>
  Claim C3, amended. The entries that the stretches of one run of the handshake append,
  in the order of appending and whatever states the stretches run in, are the proposal
  (status SENT, sent by GoogleAgent), then the evaluation (status PROCESSED, sent by
  SalesforceAgent), then, when there is a third, the settlement (status SENT); and every
  PROCESSED entry among them has before it a SENT entry sent by the opposite agent. When
  nothing else executes during the run, they are what the run adds to the transcript;
  in a session where every handler runs to its end before the next action, they are the
  whole transcript after the upload.
\<close>

theorem C3_transcript_order:
  "(let es = run_entries host r s1 s2 s3 s4 in
     (length es = 2 \<or> length es = 3) \<and>
     Log.status (es ! 0) = SENT \<and> from_agent (es ! 0) = GoogleAgent \<and>
     method_of (payload (es ! 0)) = Some ''PROPOSE_CLAIM'' \<and>
     Log.status (es ! 1) = PROCESSED \<and> from_agent (es ! 1) = SalesforceAgent \<and>
     method_of (payload (es ! 1)) = Some ''EVALUATE_POLICY'' \<and>
     (length es = 3 \<longrightarrow>
        Log.status (es ! 2) = SENT \<and> method_of (payload (es ! 2)) = Some ''INITIATE_PAYMENT'') \<and>
     processed_after_sent es) \<and>
   appended s (performA2AHandshake host r s) = run_entries host r s1 s2 s3 s4 \<and>
   (settled s \<longrightarrow> step s = IDLE \<longrightarrow> reader_result host = Some url \<longrightarrow>
    analyzeDamage (at_index (split CHR '','' url) 1) (type f) = Inr r \<longrightarrow>
      logs (fst (user_action analyzeDamage host (Select_file (Some f)) s)) =
        run_entries host r s1 s2 s3 s4)"
proof (intro conjI)
  show "let es = run_entries host r s1 s2 s3 s4 in
     (length es = 2 \<or> length es = 3) \<and>
     Log.status (es ! 0) = SENT \<and> from_agent (es ! 0) = GoogleAgent \<and>
     method_of (payload (es ! 0)) = Some ''PROPOSE_CLAIM'' \<and>
     Log.status (es ! 1) = PROCESSED \<and> from_agent (es ! 1) = SalesforceAgent \<and>
     method_of (payload (es ! 1)) = Some ''EVALUATE_POLICY'' \<and>
     (length es = 3 \<longrightarrow>
        Log.status (es ! 2) = SENT \<and> method_of (payload (es ! 2)) = Some ''INITIATE_PAYMENT'') \<and>
     processed_after_sent es"
  proof (cases "isApproved r")
    case True
    from run_entries_approved [OF True, of host s1 s2 s3 s4] obtain p e st
      where "run_entries host r s1 s2 s3 s4 = [p, e, st]"
        "Log.status p = SENT" "from_agent p = GoogleAgent"
        "method_of (payload p) = Some ''PROPOSE_CLAIM''"
        "Log.status e = PROCESSED" "from_agent e = SalesforceAgent"
        "method_of (payload e) = Some ''EVALUATE_POLICY''"
        "Log.status st = SENT" "method_of (payload st) = Some ''INITIATE_PAYMENT''"
      by blast
    then show ?thesis
      by (simp add: processed_after_sent_def upt_rec)
  next
    case False
    from run_entries_review [OF False, of host s1 s2 s3 s4] obtain p e
      where "run_entries host r s1 s2 s3 s4 = [p, e]"
        "Log.status p = SENT" "from_agent p = GoogleAgent"
        "method_of (payload p) = Some ''PROPOSE_CLAIM''"
        "Log.status e = PROCESSED" "from_agent e = SalesforceAgent"
        "method_of (payload e) = Some ''EVALUATE_POLICY''"
      by blast
    then show ?thesis
      by (simp add: processed_after_sent_def upt_rec)
  qed
next
  show "appended s (performA2AHandshake host r s) = run_entries host r s1 s2 s3 s4"
    by (rule appended_run_entries)
next
  show "settled s \<longrightarrow> step s = IDLE \<longrightarrow> reader_result host = Some url \<longrightarrow>
    analyzeDamage (at_index (split CHR '','' url) 1) (type f) = Inr r \<longrightarrow>
      logs (fst (user_action analyzeDamage host (Select_file (Some f)) s)) =
        run_entries host r s1 s2 s3 s4"
    using logs_settled_upload [of s host url analyzeDamage f r s1 s2 s3 s4] by blast
qed

theorem C3_witness:
  "length (logs firstRun) = 3 \<and>
   Log.status (logs firstRun ! 0) = SENT \<and> Log.status (logs firstRun ! 1) = PROCESSED \<and>
   Log.status (logs firstRun ! 2) = SENT \<and> processed_after_sent (logs firstRun)"
proof -
  have start: "settled initialState" "step initialState = IDLE"
    by (rule settled_initial) (simp add: initialState_def)
  have reader: "reader_result scenarioHost = Some scenarioUrl"
    by (simp add: scenarioHost_def scenarioUrl_def)
  have gateway: "gatewayReturns (scenarioReport 3200 Moderate)
      (at_index (split CHR '','' scenarioUrl) 1) (type scenarioFile) =
      Inr (scenarioReport 3200 Moderate)"
    by (simp add: gatewayReturns_def)
  note t = C3_transcript_order [of scenarioHost "scenarioReport 3200 Moderate"
      initialState resetDuringRun uploadB_failed runB_end initialState scenarioUrl
      "gatewayReturns (scenarioReport 3200 Moderate)" scenarioFile]
  have whole: "logs firstRun = run_entries scenarioHost (scenarioReport 3200 Moderate)
      initialState resetDuringRun uploadB_failed runB_end"
    unfolding firstRun_def using t start reader gateway by blast
  have three: "length (run_entries scenarioHost (scenarioReport 3200 Moderate)
      initialState resetDuringRun uploadB_failed runB_end) = 3"
    by (simp add: length_run_entries isApproved_scenario_3200)
  from t three show ?thesis
    unfolding whole Let_def by blast
qed

text \<open>
  Claim C6, as stated, fails. In the second schedule a file is selected in a session with
  step IDLE, no report and an empty transcript, and the gateway throws; the stretches of
  the run that the reset left pending have executed while the handler waited for the
  gateway, and the session ends with step IDLE, two transcript entries and a result.
\<close>

theorem C6_counterexample:
  "step uploadB_start = IDLE \<and> report uploadB_start = None \<and> logs uploadB_start = [] \<and>
   reachable uploadB_failed \<and> step uploadB_failed = IDLE \<and>
   map (\<lambda>e. method_of (payload e)) (logs uploadB_failed) =
     [Some ''EVALUATE_POLICY'', Some ''INITIATE_PAYMENT''] \<and>
   map_option ClaimResult.status (result uploadB_failed) = Some APPROVED"
proof -
  have "reachable uploadB_failed"
    by (simp add: schedule_defs reachable_stretches)
  moreover have "step uploadB_start = IDLE" "report uploadB_start = None"
    "logs uploadB_start = []" "step uploadB_failed = IDLE"
    "map (\<lambda>e. method_of (payload e)) (logs uploadB_failed) =
       [Some ''EVALUATE_POLICY'', Some ''INITIATE_PAYMENT'']"
    "map_option ClaimResult.status (result uploadB_failed) = Some APPROVED"
    by (simp_all add: schedule_defs stretch_defs initialState_def isApproved_scenario_3200
        Log.extend_def)
  ultimately show ?thesis
    by blast
qed

text \<open>
  Claim C6, amended. When the reader has delivered the data URL and \<open>analyzeDamage\<close>
  throws, the handler calls the gateway once, logs the error and alerts the user, and
  does not call the gateway again. Its \<^verbatim>\<open>catch\<close> block sets the step to IDLE, after
  which the upload area is rendered again, and neither it nor the stretches before it
  change the report, the transcript or the result, whatever states they run in. When
  nothing else executes during the upload, the report, the transcript and the result are
  at its end what they were at its start. In a session where every handler runs to its
  end before the next action, the upload starts with no report, an empty transcript and
  no result, and ends with step IDLE, still no report, an empty transcript and no
  result.
\<close>

theorem C6_analysis_failure:
  assumes "reader_result host = Some url"
    and "analyzeDamage (at_index (split CHR '','' url) 1) (type f) = Inl err"
  shows "snd (handleFileUpload analyzeDamage host (Some f) s) =
      [Call_analyzeDamage (at_index (split CHR '','' url) 1) (type f),
       Console_error ''Analysis failed'' err,
       Alert (''Verification failed. Please ensure the image/video '' @
              ''clearly shows the damage.'')] \<and>
    step (fst (handleFileUpload analyzeDamage host (Some f) s)) = IDLE \<and>
    report (fst (handleFileUpload analyzeDamage host (Some f) s)) = report s \<and>
    logs (fst (handleFileUpload analyzeDamage host (Some f) s)) = logs s \<and>
    result (fst (handleFileUpload analyzeDamage host (Some f) s)) = result s \<and>
    upload_area_rendered (fst (handleFileUpload analyzeDamage host (Some f) s)) \<and>
    fst (handleFileUpload analyzeDamage host (Some f) s) =
      upload_failed (upload_loaded url (upload_begin s)) \<and>
    report (upload_begin s1) = report s1 \<and> logs (upload_begin s1) = logs s1 \<and>
    result (upload_begin s1) = result s1 \<and>
    report (upload_loaded url s2) = report s2 \<and> logs (upload_loaded url s2) = logs s2 \<and>
    result (upload_loaded url s2) = result s2 \<and>
    step (upload_failed s3) = IDLE \<and> report (upload_failed s3) = report s3 \<and>
    logs (upload_failed s3) = logs s3 \<and> result (upload_failed s3) = result s3 \<and>
    (settled s \<longrightarrow> step s = IDLE \<longrightarrow>
       settled (fst (user_action analyzeDamage host (Select_file (Some f)) s)) \<and>
       step (fst (user_action analyzeDamage host (Select_file (Some f)) s)) = IDLE \<and>
       report (fst (user_action analyzeDamage host (Select_file (Some f)) s)) = None \<and>
       logs (fst (user_action analyzeDamage host (Select_file (Some f)) s)) = [] \<and>
       result (fst (user_action analyzeDamage host (Select_file (Some f)) s)) = None)"
proof -
  have run: "handleFileUpload analyzeDamage host (Some f) s =
      (upload_failed (upload_loaded url (upload_begin s)),
       [Call_analyzeDamage (at_index (split CHR '','' url) 1) (type f),
        Console_error ''Analysis failed'' err,
        Alert (''Verification failed. Please ensure the image/video '' @
               ''clearly shows the damage.'')])"
    using assms by (simp add: handleFileUpload_def onloadend_def Let_def)
  have session: "settled (fst (user_action analyzeDamage host (Select_file (Some f)) s)) \<and>
       step (fst (user_action analyzeDamage host (Select_file (Some f)) s)) = IDLE \<and>
       report (fst (user_action analyzeDamage host (Select_file (Some f)) s)) = None \<and>
       logs (fst (user_action analyzeDamage host (Select_file (Some f)) s)) = [] \<and>
       result (fst (user_action analyzeDamage host (Select_file (Some f)) s)) = None"
    if "settled s" "step s = IDLE"
  proof -
    have after: "settled (fst (user_action analyzeDamage host (Select_file (Some f)) s))"
      using that(1) by (rule settled_action)
    have idle: "step (fst (user_action analyzeDamage host (Select_file (Some f)) s)) = IDLE"
      using that(2) by (simp add: upload_area_rendered_def run upload_failed_def)
    from after idle settled_idle [OF after idle] show ?thesis
      by blast
  qed
  show ?thesis
    using session
    by (simp add: run upload_begin_def upload_loaded_def upload_failed_def
        upload_area_rendered_def)
qed

theorem C6_witness:
  "step (fst (user_action gatewayThrows scenarioHost (Select_file (Some scenarioFile))
      initialState)) = IDLE \<and>
   report (fst (user_action gatewayThrows scenarioHost (Select_file (Some scenarioFile))
      initialState)) = None \<and>
   logs (fst (user_action gatewayThrows scenarioHost (Select_file (Some scenarioFile))
      initialState)) = [] \<and>
   length (snd (handleFileUpload gatewayThrows scenarioHost (Some scenarioFile) initialState)) =
     3"
proof -
  have reader: "reader_result scenarioHost = Some scenarioUrl"
    by (simp add: scenarioHost_def scenarioUrl_def)
  have gateway: "gatewayThrows (at_index (split CHR '','' scenarioUrl) 1) (type scenarioFile) =
      Inl ''Error: damage not visible''"
    by (simp add: gatewayThrows_def)
  have start: "settled initialState" "step initialState = IDLE"
    by (rule settled_initial) (simp add: initialState_def)
  note t = C6_analysis_failure [of scenarioHost scenarioUrl gatewayThrows scenarioFile
      "''Error: damage not visible''" initialState initialState initialState initialState,
      OF reader gateway]
  have "length (snd (handleFileUpload gatewayThrows scenarioHost (Some scenarioFile)
      initialState)) = 3"
    using t by simp
  with t start show ?thesis
    by blast
qed

section \<open>The reference id\<close>

lemma toUpperCase_char_distinct:
  "distinct (map toUpperCase_char ''0123456789abcdefghijklmnopqrstuvwxyz.'')"
  by (simp add: toUpperCase_char_def)

lemma toUpperCase_inj:
  assumes "base36 a" and "base36 b" and "toUpperCase a = toUpperCase b"
  shows "a = b"
proof -
  have "inj_on toUpperCase_char (set ''0123456789abcdefghijklmnopqrstuvwxyz.'')"
    using toUpperCase_char_distinct unfolding distinct_map by blast
  moreover have "set a \<union> set b \<subseteq> set ''0123456789abcdefghijklmnopqrstuvwxyz.''"
    using assms(1,2) unfolding base36_def list_all_iff by blast
  ultimately have "inj_on toUpperCase_char (set a \<union> set b)"
    by (rule inj_on_subset)
  then show ?thesis
    using assms(3) by (simp add: toUpperCase_def inj_on_map_eq_map)
qed

lemma base36_substr: "base36 d \<Longrightarrow> base36 (substr d start len)"
  unfolding base36_def substr_def list_all_iff
  by (meson in_set_dropD in_set_takeD)

lemma newReferenceId_scenarioHost: "newReferenceId scenarioHost = ''CLM-4FZYO82MV''"
  by (simp add: newReferenceId_def scenarioHost_def toUpperCase_def toUpperCase_char_def
      substr_def)

lemma newReferenceId_secondHost: "newReferenceId secondHost = ''CLM-4FZYO82MV''"
  by (simp add: newReferenceId_def scenarioHost_def secondHost_def toUpperCase_def
      toUpperCase_char_def substr_def)

lemma result_firstRun:
  "result firstRun =
     result (performA2AHandshake scenarioHost (scenarioReport 3200 Moderate) initialState)"
  using handleFileUpload_success
    [of scenarioHost "''data:image/png;base64,iVBORw0KGgo=''"
      "gatewayReturns (scenarioReport 3200 Moderate)" scenarioFile "scenarioReport 3200 Moderate"
      initialState]
  by (simp add: firstRun_def upload_area_rendered_def initialState_def scenarioHost_def
      gatewayReturns_def)

lemma result_secondRun:
  "result secondRun =
     result (performA2AHandshake secondHost (scenarioReport 12000 Catastrophic)
       (resetWorkflow firstRun))"
  using handleFileUpload_success
    [of secondHost "''data:image/png;base64,iVBORw0KGgo=''"
      "gatewayReturns (scenarioReport 12000 Catastrophic)" scenarioFile
      "scenarioReport 12000 Catastrophic" "resetWorkflow firstRun"]
  by (simp add: secondRun_def upload_area_rendered_def resetWorkflow_def scenarioHost_def
      secondHost_def gatewayReturns_def)

text \<open>
  Claim C7, as stated, fails. In the session of two completed runs above, the random
  draws of the two runs are different, and the two claim results have the same
  reference id.
\<close>

theorem C7_counterexample:
  "random_toString36 scenarioHost \<noteq> random_toString36 secondHost \<and>
   step firstRun = COMPLETED \<and> step secondRun = COMPLETED \<and>
   map_option referenceId (result firstRun) = Some ''CLM-4FZYO82MV'' \<and>
   map_option referenceId (result secondRun) = Some ''CLM-4FZYO82MV''"
  by (simp add: step_firstRun step_secondRun result_firstRun result_secondRun
      result_performA2AHandshake newReferenceId_scenarioHost newReferenceId_secondHost)
     (simp add: scenarioHost_def secondHost_def)

text \<open>
  Claim C7, amended. The reference id of the claim result of a run is \<open>CLM-\<close> followed
  by the characters 3 to 11 of the base-36 string of the run's random draw, in upper
  case; and the reference ids of two runs are equal exactly when the base-36 strings of
  their draws have the same characters 3 to 11.
\<close>

theorem C7_referenceId_from_draw:
  assumes "base36 (random_toString36 host1)" and "base36 (random_toString36 host2)"
  shows "map_option referenceId (result (performA2AHandshake host1 r1 s1)) =
      Some (''CLM-'' @ toUpperCase (substr (random_toString36 host1) 2 9)) \<and>
    (map_option referenceId (result (performA2AHandshake host1 r1 s1)) =
       map_option referenceId (result (performA2AHandshake host2 r2 s2))) =
    (substr (random_toString36 host1) 2 9 = substr (random_toString36 host2) 2 9)"
  using toUpperCase_inj [OF base36_substr [OF assms(1)] base36_substr [OF assms(2)], of 2 9 2 9]
  by (auto simp: result_performA2AHandshake newReferenceId_def)

theorem C7_witness:
  "base36 (random_toString36 scenarioHost) \<and> base36 (random_toString36 secondHost) \<and>
   base36 (random_toString36 thirdHost) \<and>
   map_option referenceId
     (result (performA2AHandshake scenarioHost (scenarioReport 3200 Moderate) initialState)) =
     map_option referenceId
       (result (performA2AHandshake secondHost (scenarioReport 3200 Moderate) initialState)) \<and>
   map_option referenceId
     (result (performA2AHandshake scenarioHost (scenarioReport 3200 Moderate) initialState)) \<noteq>
     map_option referenceId
       (result (performA2AHandshake thirdHost (scenarioReport 3200 Moderate) initialState))"
proof -
  have b: "base36 (random_toString36 scenarioHost)" "base36 (random_toString36 secondHost)"
    "base36 (random_toString36 thirdHost)"
    by (simp_all add: base36_def scenarioHost_def secondHost_def thirdHost_def)
  have same: "substr (random_toString36 scenarioHost) 2 9 = substr (random_toString36 secondHost) 2 9"
    by (simp add: substr_def scenarioHost_def secondHost_def)
  have other: "substr (random_toString36 scenarioHost) 2 9 \<noteq> substr (random_toString36 thirdHost) 2 9"
    by (simp add: substr_def scenarioHost_def thirdHost_def)
  note t1 = C7_referenceId_from_draw [OF b(1) b(2),
      of "scenarioReport 3200 Moderate" initialState "scenarioReport 3200 Moderate" initialState]
  note t2 = C7_referenceId_from_draw [OF b(1) b(3),
      of "scenarioReport 3200 Moderate" initialState "scenarioReport 3200 Moderate" initialState]
  from b same other t1 t2 show ?thesis
    by blast
qed

end
